theory Spec2Isabelle
  imports Main
begin

section \<open>The language-client extension (client/src/extension.ts)\<close>

text \<open>
  The extension module has one piece of state of its own, the module-level variable
  \<^verbatim>\<open>let client: LanguageClient\<close>, and two exported functions, \<^verbatim>\<open>activate\<close>
  and \<^verbatim>\<open>deactivate\<close>. Everything else it does is a call into the host editor
  (\<^verbatim>\<open>commands\<close>, \<^verbatim>\<open>window\<close>, \<^verbatim>\<open>workspace\<close>, \<^verbatim>\<open>console\<close>) or into
  the language-client library. The embedding threads a record of the module variable and
  of what the host has been asked to do through the two functions, and keeps the calls in
  program order in a list of effects.
\<close>

subsection \<open>JavaScript values, errors and promises\<close>

datatype js_error =
    TypeError string
  | Failure string

text \<open>
  The values a caller can hand to the extension. The extension never looks into an object:
  the one thing it does with a caller's value is to pass it to \<^verbatim>\<open>console.log\<close>. So
  an object is its identity together with what formatting it does: \<open>None\<close> when the
  console can format it, \<open>Some e\<close> when formatting it throws \<open>e\<close> (an object whose
  \<^verbatim>\<open>[util.inspect.custom]\<close> method throws, a Proxy whose trap throws). Formatting a
  primitive value never throws.
\<close>

datatype js_value =
    JsUndefined
  | JsNull
  | JsBool bool
  | JsNumber int
  | JsString string
  | JsObject nat "js_error option"

fun format_error :: "js_value \<Rightarrow> js_error option" where
  "format_error (JsObject i f) = f"
| "format_error v = None"

text \<open>A promise as its caller sees it: settled with a value, settled with an error, or
  never settled.\<close>

datatype completion =
    Resolved js_value
  | Rejected js_error
  | Pending

text \<open>A synchronous call either throws or returns.\<close>

datatype 'a result =
    Throw js_error
  | Return 'a

subsection \<open>The launch configuration (lines 34 to 53)\<close>

record executable_options =
  options_env :: "string \<rightharpoonup> string"

record executable =
  exec_command :: string
  exec_options :: executable_options

record server_options =
  server_run :: executable
  server_debug :: executable

text \<open>
  \<^verbatim>\<open>const command = process.env.SERVER_PATH ?? 'generic-language-server'\<close>.
  An entry of \<^verbatim>\<open>process.env\<close> is a string or is absent (\<^verbatim>\<open>undefined\<close>); the
  operator \<^verbatim>\<open>??\<close> takes its right operand only when the left one is
  \<^verbatim>\<open>undefined\<close> or \<^verbatim>\<open>null\<close>.
\<close>

definition command :: "(string \<rightharpoonup> string) \<Rightarrow> string" where
  "command process_env =
     (case process_env ''SERVER_PATH'' of
        None \<Rightarrow> ''generic-language-server''
      | Some path \<Rightarrow> path)"

text \<open>
  \<^verbatim>\<open>const run = { command, options: { env: { ...process.env, RUST_LOG: 'debug' } } }\<close>.
  The spread copies every entry of \<^verbatim>\<open>process.env\<close>; the property written after it
  replaces an entry of the same name.
\<close>

definition run :: "(string \<rightharpoonup> string) \<Rightarrow> executable" where
  "run process_env =
     \<lparr>exec_command = command process_env,
      exec_options = \<lparr>options_env = process_env(''RUST_LOG'' \<mapsto> ''debug'')\<rparr>\<rparr>"

text \<open>\<^verbatim>\<open>const serverOptions = { run, debug: run }\<close>.\<close>

definition serverOptions :: "(string \<rightharpoonup> string) \<Rightarrow> server_options" where
  "serverOptions process_env =
     \<lparr>server_run = run process_env, server_debug = run process_env\<rparr>"

subsection \<open>The client options (lines 56 to 65)\<close>

record document_filter =
  scheme :: string
  language :: string

text \<open>The file-system watcher and the output channel are objects of the host; the options
  hold references to them, here their positions in the host's lists.\<close>

record synchronize_options =
  fileEvents :: nat

record language_client_options =
  documentSelector :: "document_filter list"
  synchronize :: synchronize_options
  traceOutputChannel :: nat

definition clientOptions :: "nat \<Rightarrow> nat \<Rightarrow> language_client_options" where
  "clientOptions watcher channel =
     \<lparr>documentSelector = [\<lparr>scheme = ''file'', language = ''gen''\<rparr>],
      synchronize = \<lparr>fileEvents = watcher\<rparr>,
      traceOutputChannel = channel\<rparr>"

record text_document =
  doc_scheme :: string
  doc_languageId :: string

text \<open>
  Modelled from the spec: the matching of a document against a document selector is done
  by the host editor and is not part of the source. The spec's data model says of a scope
  rule that a document matches iff both fields match exactly; a selector is a list of such
  rules and a document is in scope when one of them matches.
\<close>

definition filter_matches :: "document_filter \<Rightarrow> text_document \<Rightarrow> bool" where
  "filter_matches f doc = (doc_scheme doc = scheme f \<and> doc_languageId doc = language f)"

definition matches :: "document_filter list \<Rightarrow> text_document \<Rightarrow> bool" where
  "matches selector doc = list_ex (\<lambda>f. filter_matches f doc) selector"

subsection \<open>The module variable and the host\<close>

text \<open>
  The value of \<^verbatim>\<open>client\<close>. The declaration has no initialiser, so the variable holds
  \<^verbatim>\<open>undefined\<close> until it is assigned; \<^verbatim>\<open>null\<close> is a different value, the one the
  guard of \<^verbatim>\<open>deactivate\<close> compares with. An object made by
  \<^verbatim>\<open>new LanguageClient\<close> is its position in the store of such objects.
\<close>

datatype client_ref =
    Undefined
  | Null
  | Handle nat

record language_client =
  lc_id :: string
  lc_name :: string
  lc_serverOptions :: server_options
  lc_clientOptions :: language_client_options

datatype disposable =
    CommandRegistration string

datatype effect =
    RegisterCommand string
  | PushSubscription disposable
  | CreateOutputChannel string
  | ConsoleLog js_value
  | CreateFileSystemWatcher string
  | NewLanguageClient nat
  | AssignClient nat
  | ClientStart nat
  | ClientStop nat

record world =
  client :: client_ref
  registered :: "string list"
  subscriptions :: "disposable list"
  outputChannels :: "string list"
  watchers :: "string list"
  console :: "js_value list"
  clients :: "language_client list"
  effects :: "effect list"

text \<open>The module has just been loaded: nothing has been called yet.\<close>

definition initial :: world where
  "initial =
     \<lparr>client = Undefined, registered = [], subscriptions = [], outputChannels = [],
      watchers = [], console = [], clients = [], effects = []\<rparr>"

text \<open>
  The calls into the host. Each does what the source relies on (it hands back its object)
  and is recorded. The source handles no failure of these calls, and none is modelled; the
  completions of \<^verbatim>\<open>client.start()\<close> and \<^verbatim>\<open>client.stop()\<close> are decided by
  the library and the external process, and are parameters.
\<close>

text \<open>
  \<^verbatim>\<open>console.log(v)\<close> formats its argument and then prints it. \<open>console_log\<close> is
  what the call does to the world: the call is recorded, and the value reaches the console
  only when formatting it did not throw. Whether the call throws is \<open>format_error v\<close>;
  for a string it never does, and every argument that \<^verbatim>\<open>activate\<close> and
  \<^verbatim>\<open>deactivate\<close> log is a string. The command handler logs a value of its caller's,
  and there the throw is a branch.
\<close>

definition console_log :: "js_value \<Rightarrow> world \<Rightarrow> world" where
  "console_log v w =
     (case format_error v of
        None \<Rightarrow> w\<lparr>console := console w @ [v], effects := effects w @ [ConsoleLog v]\<rparr>
      | Some e \<Rightarrow> w\<lparr>effects := effects w @ [ConsoleLog v]\<rparr>)"

definition registerCommand :: "string \<Rightarrow> world \<Rightarrow> disposable \<times> world" where
  "registerCommand c w =
     (CommandRegistration c,
      w\<lparr>registered := registered w @ [c], effects := effects w @ [RegisterCommand c]\<rparr>)"

definition subscriptions_push :: "disposable \<Rightarrow> world \<Rightarrow> world" where
  "subscriptions_push d w =
     w\<lparr>subscriptions := subscriptions w @ [d], effects := effects w @ [PushSubscription d]\<rparr>"

definition createOutputChannel :: "string \<Rightarrow> world \<Rightarrow> nat \<times> world" where
  "createOutputChannel n w =
     (length (outputChannels w),
      w\<lparr>outputChannels := outputChannels w @ [n],
        effects := effects w @ [CreateOutputChannel n]\<rparr>)"

definition createFileSystemWatcher :: "string \<Rightarrow> world \<Rightarrow> nat \<times> world" where
  "createFileSystemWatcher g w =
     (length (watchers w),
      w\<lparr>watchers := watchers w @ [g], effects := effects w @ [CreateFileSystemWatcher g]\<rparr>)"

definition new_LanguageClient ::
  "string \<Rightarrow> string \<Rightarrow> server_options \<Rightarrow> language_client_options \<Rightarrow> world \<Rightarrow> nat \<times> world" where
  "new_LanguageClient i n so co w =
     (length (clients w),
      w\<lparr>clients := clients w @
           [\<lparr>lc_id = i, lc_name = n, lc_serverOptions = so, lc_clientOptions = co\<rparr>],
        effects := effects w @ [NewLanguageClient (length (clients w))]\<rparr>)"

text \<open>
  The expressions \<^verbatim>\<open>client.start()\<close> and \<^verbatim>\<open>client.stop()\<close>. Reading a property
  of \<^verbatim>\<open>undefined\<close> or of \<^verbatim>\<open>null\<close> throws a TypeError before anything is called.
\<close>

definition client_start :: "completion \<Rightarrow> client_ref \<Rightarrow> world \<Rightarrow> completion result \<times> world" where
  "client_start start_result c w =
     (case c of
        Undefined \<Rightarrow> (Throw (TypeError ''Cannot read properties of undefined (reading start)''), w)
      | Null \<Rightarrow> (Throw (TypeError ''Cannot read properties of null (reading start)''), w)
      | Handle h \<Rightarrow> (Return start_result, w\<lparr>effects := effects w @ [ClientStart h]\<rparr>))"

definition client_stop :: "completion \<Rightarrow> client_ref \<Rightarrow> world \<Rightarrow> completion option result \<times> world" where
  "client_stop stop_result c w =
     (case c of
        Undefined \<Rightarrow> (Throw (TypeError ''Cannot read properties of undefined (reading stop)''), w)
      | Null \<Rightarrow> (Throw (TypeError ''Cannot read properties of null (reading stop)''), w)
      | Handle h \<Rightarrow> (Return (Some stop_result), w\<lparr>effects := effects w @ [ClientStop h]\<rparr>))"

text \<open>
  \<^verbatim>\<open>await e\<close> as the last statement of an async function of type
  \<^verbatim>\<open>Promise<void>\<close>: a throw while evaluating \<^verbatim>\<open>e\<close> and a rejection of its
  promise both reject the function's promise; when the promise resolves, the function
  falls off its end and resolves with \<^verbatim>\<open>undefined\<close>.
\<close>

definition await_last :: "completion result \<Rightarrow> completion" where
  "await_last r =
     (case r of
        Throw e \<Rightarrow> Rejected e
      | Return (Resolved v) \<Rightarrow> Resolved JsUndefined
      | Return (Rejected e) \<Rightarrow> Rejected e
      | Return Pending \<Rightarrow> Pending)"

subsection \<open>The command handler (lines 23 to 28)\<close>

text \<open>
  The handler is an async arrow function with no \<^verbatim>\<open>try\<close>: when
  \<^verbatim>\<open>console.log(uri)\<close> throws, the handler's promise rejects with what was thrown;
  otherwise the body ends without a \<^verbatim>\<open>return\<close> and the promise resolves with
  \<^verbatim>\<open>undefined\<close>.
\<close>

definition helloWorld :: "js_value \<Rightarrow> world \<Rightarrow> completion \<times> world" where
  "helloWorld uri w =
     (let w1 = console_log (JsString ''Running command registered as helloworld.helloWorld'') w;
          w2 = console_log uri w1
      in case format_error uri of
           Some e \<Rightarrow> (Rejected e, w2)
         | None \<Rightarrow> (Resolved JsUndefined, w2))"

subsection \<open>Starting the session (lines 68 to 76)\<close>

definition start ::
  "server_options \<Rightarrow> language_client_options \<Rightarrow> completion \<Rightarrow> world \<Rightarrow> completion \<times> world" where
  "start so co start_result w =
     (let (h, w1) = new_LanguageClient ''generic-language-server'' ''Generic language server'' so co w;
          w2 = w1\<lparr>client := Handle h, effects := effects w1 @ [AssignClient h]\<rparr>;
          w3 = console_log (JsString ''Running Generic LSP extention'') w2;
          (r, w4) = client_start start_result (client w3) w3
      in (await_last r, w4))"

subsection \<open>activate and deactivate\<close>

definition activate :: "(string \<rightharpoonup> string) \<Rightarrow> completion \<Rightarrow> world \<Rightarrow> completion \<times> world" where
  "activate process_env start_result w =
     (let (d, w1) = registerCommand ''helloworld.helloWorld'' w;
          w2 = subscriptions_push d w1;
          (channel, w3) = createOutputChannel ''Generic Language Server trace'' w2;
          w4 = console_log (JsString (command process_env)) w3;
          (watcher, w5) = createFileSystemWatcher ''**/*.gen'' w4
      in start (serverOptions process_env) (clientOptions watcher channel) start_result w5)"

text \<open>\<^verbatim>\<open>deactivate\<close> is not async: what it throws, it throws to its caller. The
  result \<open>None\<close> is the \<^verbatim>\<open>undefined\<close> of the guarded branch.\<close>

definition deactivate :: "completion \<Rightarrow> world \<Rightarrow> completion option result \<times> world" where
  "deactivate stop_result w =
     (let w1 = console_log (JsString ''Exiting Generic LSP extention'') w
      in if client w1 = Null then (Return None, w1)
         else client_stop stop_result (client w1) w1)"

text \<open>The states the module can be in: any sequence of activations, deactivations and
  invocations of the command, whatever the environment and the completions.\<close>

inductive reachable :: "world \<Rightarrow> bool" where
  reachable_initial: "reachable initial"
| reachable_activate: "reachable w \<Longrightarrow> reachable (snd (activate process_env start_result w))"
| reachable_deactivate: "reachable w \<Longrightarrow> reachable (snd (deactivate stop_result w))"
| reachable_helloWorld: "reachable w \<Longrightarrow> reachable (snd (helloWorld uri w))"

text \<open>\<open>before a b xs\<close>: \<open>a\<close> occurs in \<open>xs\<close> ahead of the first \<open>b\<close>, and \<open>b\<close> occurs.\<close>

definition before :: "effect \<Rightarrow> effect \<Rightarrow> effect list \<Rightarrow> bool" where
  "before a b xs = (a \<in> set (takeWhile (\<lambda>x. x \<noteq> b) xs) \<and> b \<in> set xs)"

section \<open>Properties\<close>


subsection \<open>What each function does to the world\<close>

lemmas host_defs = console_log_def registerCommand_def subscriptions_push_def
  createOutputChannel_def createFileSystemWatcher_def new_LanguageClient_def
  client_start_def client_stop_def

lemma helloWorld_world:
  "helloWorld uri w =
     ((case format_error uri of Some e \<Rightarrow> Rejected e | None \<Rightarrow> Resolved JsUndefined),
      w\<lparr>console := console w @
          JsString ''Running command registered as helloworld.helloWorld'' #
          (case format_error uri of Some e \<Rightarrow> [] | None \<Rightarrow> [uri]),
        effects := effects w @
          [ConsoleLog (JsString ''Running command registered as helloworld.helloWorld''),
           ConsoleLog uri]\<rparr>)"
  by (simp add: helloWorld_def console_log_def split: option.split)

lemma start_world:
  "start so co sr w =
     (await_last (Return sr),
      w\<lparr>client := Handle (length (clients w)),
        console := console w @ [JsString ''Running Generic LSP extention''],
        clients := clients w @
          [\<lparr>lc_id = ''generic-language-server'', lc_name = ''Generic language server'',
            lc_serverOptions = so, lc_clientOptions = co\<rparr>],
        effects := effects w @
          [NewLanguageClient (length (clients w)), AssignClient (length (clients w)),
           ConsoleLog (JsString ''Running Generic LSP extention''),
           ClientStart (length (clients w))]\<rparr>)"
  by (simp add: start_def host_defs)

lemma activate_world:
  "activate process_env sr w =
     (await_last (Return sr),
      w\<lparr>client := Handle (length (clients w)),
        registered := registered w @ [''helloworld.helloWorld''],
        subscriptions := subscriptions w @ [CommandRegistration ''helloworld.helloWorld''],
        outputChannels := outputChannels w @ [''Generic Language Server trace''],
        watchers := watchers w @ [''**/*.gen''],
        console := console w @
          [JsString (command process_env), JsString ''Running Generic LSP extention''],
        clients := clients w @
          [\<lparr>lc_id = ''generic-language-server'', lc_name = ''Generic language server'',
            lc_serverOptions = serverOptions process_env,
            lc_clientOptions = clientOptions (length (watchers w)) (length (outputChannels w))\<rparr>],
        effects := effects w @
          [RegisterCommand ''helloworld.helloWorld'',
           PushSubscription (CommandRegistration ''helloworld.helloWorld''),
           CreateOutputChannel ''Generic Language Server trace'',
           ConsoleLog (JsString (command process_env)),
           CreateFileSystemWatcher ''**/*.gen'',
           NewLanguageClient (length (clients w)), AssignClient (length (clients w)),
           ConsoleLog (JsString ''Running Generic LSP extention''),
           ClientStart (length (clients w))]\<rparr>)"
  by (simp add: activate_def start_world host_defs)

lemma deactivate_world:
  "deactivate sr w =
     (if client w = Null
      then (Return None, console_log (JsString ''Exiting Generic LSP extention'') w)
      else client_stop sr (client w) (console_log (JsString ''Exiting Generic LSP extention'') w))"
  by (simp add: deactivate_def Let_def console_log_def)

text \<open>The module variable is \<^verbatim>\<open>undefined\<close> or a client object that exists: the only
  assignment to it is the one in \<^verbatim>\<open>activate\<close>, of the object just constructed.\<close>

lemma reachable_client:
  "reachable w \<Longrightarrow> client w = Undefined \<or> (\<exists>h. client w = Handle h \<and> h < length (clients w))"
proof (induction rule: reachable.induct)
  case reachable_initial
  show ?case by (simp add: initial_def)
next
  case (reachable_activate w process_env start_result)
  show ?case by (simp add: activate_world)
next
  case (reachable_deactivate w stop_result)
  then show ?case
    by (cases "client w") (auto simp: deactivate_world client_stop_def console_log_def)
next
  case (reachable_helloWorld w uri)
  then show ?case by (simp add: helloWorld_world)
qed

subsection \<open>Deactivation before any start\<close>

text \<open>
  C1 says that \<^verbatim>\<open>deactivate\<close>, called when no session was ever started, is a no-op
  that neither rejects nor throws. The code does not do this: in the state of the freshly
  loaded module the variable holds \<^verbatim>\<open>undefined\<close>, the guard compares it with
  \<^verbatim>\<open>null\<close> by strict equality and is false, and \<^verbatim>\<open>client.stop()\<close> throws a
  TypeError synchronously, after the log line. The theorem evaluates \<open>deactivate\<close> there,
  for every completion the library could have given.
\<close>

theorem deactivate_before_start_throws:
  "deactivate stop_result initial =
     (Throw (TypeError ''Cannot read properties of undefined (reading stop)''),
      initial\<lparr>console := [JsString ''Exiting Generic LSP extention''],
        effects := [ConsoleLog (JsString ''Exiting Generic LSP extention'')]\<rparr>)"
  by (simp add: deactivate_world client_stop_def console_log_def initial_def)

subsection \<open>The launch command\<close>

text \<open>
  C2, as stated, fails when the override variable is bound to the empty string: the claim
  gives the default name, the code gives the empty string, since \<^verbatim>\<open>??\<close> replaces only
  \<^verbatim>\<open>undefined\<close> and \<^verbatim>\<open>null\<close>.
\<close>

theorem command_empty_override_counterexample:
  "(Map.empty(''SERVER_PATH'' \<mapsto> '''')) ''SERVER_PATH'' = Some '''' \<and>
   command (Map.empty(''SERVER_PATH'' \<mapsto> '''')) = '''' \<and>
   command (Map.empty(''SERVER_PATH'' \<mapsto> '''')) \<noteq> ''generic-language-server''"
  by (simp add: command_def)

text \<open>
  C2, amended: for every environment, if SERVER_PATH is bound to a non-empty string X the
  launch command is X; if it is bound to the empty string the launch command is the empty
  string; if it is absent the launch command is the default name
  \<^verbatim>\<open>generic-language-server\<close>.
\<close>

theorem command_resolution:
  "(\<forall>X. X \<noteq> '''' \<and> process_env ''SERVER_PATH'' = Some X \<longrightarrow> command process_env = X) \<and>
   (process_env ''SERVER_PATH'' = Some '''' \<longrightarrow> command process_env = '''') \<and>
   (process_env ''SERVER_PATH'' = None \<longrightarrow> command process_env = ''generic-language-server'')"
  by (simp add: command_def)

theorem command_resolution_witness:
  "command (Map.empty(''SERVER_PATH'' \<mapsto> ''/opt/gls'')) = ''/opt/gls'' \<and>
   command (Map.empty(''SERVER_PATH'' \<mapsto> '''')) = '''' \<and>
   command Map.empty = ''generic-language-server''"
proof -
  have a: "command (Map.empty(''SERVER_PATH'' \<mapsto> ''/opt/gls'')) = ''/opt/gls''"
    using command_resolution [of "Map.empty(''SERVER_PATH'' \<mapsto> ''/opt/gls'')"] by simp
  have b: "command (Map.empty(''SERVER_PATH'' \<mapsto> '''')) = ''''"
    using command_resolution [of "Map.empty(''SERVER_PATH'' \<mapsto> '''')"] by simp
  have c: "command Map.empty = ''generic-language-server''"
    using command_resolution [of Map.empty] by simp
  from a b c show ?thesis by simp
qed

subsection \<open>Starting twice\<close>

text \<open>
  C3: two calls of \<open>start\<close> (lines 68 to 76, the construction of the client, the
  assignment and the call of its \<^verbatim>\<open>start\<close>) with no stop between them, from any
  state and whatever the options and the completions. They construct two client objects
  at different places of the store, each with the options it was given; the module
  variable refers to the first after the first call and to the second after the second;
  the first object is as the first call left it; and the calls made are exactly the eight
  listed, none of which stops a client.
\<close>

theorem start_twice_leaks_first_handle:
  "(let w1 = snd (start so1 co1 sr1 w);
        w2 = snd (start so2 co2 sr2 w1);
        h1 = length (clients w);
        h2 = Suc (length (clients w))
    in client w1 = Handle h1 \<and> client w2 = Handle h2 \<and> h1 \<noteq> h2 \<and>
       clients w2 = clients w @
         [\<lparr>lc_id = ''generic-language-server'', lc_name = ''Generic language server'',
           lc_serverOptions = so1, lc_clientOptions = co1\<rparr>,
          \<lparr>lc_id = ''generic-language-server'', lc_name = ''Generic language server'',
           lc_serverOptions = so2, lc_clientOptions = co2\<rparr>] \<and>
       clients w2 ! h1 = clients w1 ! h1 \<and>
       effects w2 = effects w @
         [NewLanguageClient h1, AssignClient h1,
          ConsoleLog (JsString ''Running Generic LSP extention''), ClientStart h1,
          NewLanguageClient h2, AssignClient h2,
          ConsoleLog (JsString ''Running Generic LSP extention''), ClientStart h2] \<and>
       (\<forall>h. ClientStop h \<notin> set (drop (length (effects w)) (effects w2))))"
  by (simp add: start_world Let_def nth_append)

subsection \<open>Document scope\<close>

text \<open>
  C4: a document is in the scope of the selector that \<open>clientOptions\<close> builds exactly when
  its scheme is \<^verbatim>\<open>file\<close> and its language identifier is \<^verbatim>\<open>gen\<close>, for every
  pair of scheme and language identifier.
\<close>

theorem document_scope:
  "matches (documentSelector (clientOptions watcher channel))
     \<lparr>doc_scheme = s, doc_languageId = l\<rparr> = (s = ''file'' \<and> l = ''gen'')"
  by (simp add: matches_def filter_matches_def clientOptions_def)

subsection \<open>The environment of the launched process\<close>

text \<open>
  C5: the environment of the launch specification is the inherited environment with
  RUST_LOG bound to \<^verbatim>\<open>debug\<close>: that key is bound to \<^verbatim>\<open>debug\<close> whatever the
  inherited environment said of it, and every other key is bound as in the inherited
  environment (or absent as there).
\<close>

theorem run_environment:
  "options_env (exec_options (run process_env)) = process_env(''RUST_LOG'' \<mapsto> ''debug'') \<and>
   options_env (exec_options (run process_env)) ''RUST_LOG'' = Some ''debug'' \<and>
   (\<forall>k. k \<noteq> ''RUST_LOG'' \<longrightarrow> options_env (exec_options (run process_env)) k = process_env k)"
  by (simp add: run_def)

theorem run_environment_witness:
  "options_env (exec_options (run (Map.empty(''RUST_LOG'' \<mapsto> ''error'', ''HOME'' \<mapsto> ''/root''))))
     ''RUST_LOG'' = Some ''debug'' \<and>
   options_env (exec_options (run (Map.empty(''RUST_LOG'' \<mapsto> ''error'', ''HOME'' \<mapsto> ''/root''))))
     ''HOME'' = Some ''/root''"
  using run_environment [of "Map.empty(''RUST_LOG'' \<mapsto> ''error'', ''HOME'' \<mapsto> ''/root'')"]
  by simp

text \<open>
  C6: for one and the same environment the run-mode and the debug-mode launch
  specifications are the same value: the same command and the same environment.
\<close>

theorem run_debug_identical:
  "server_run (serverOptions process_env) = server_debug (serverOptions process_env) \<and>
   exec_command (server_run (serverOptions process_env)) =
     exec_command (server_debug (serverOptions process_env)) \<and>
   options_env (exec_options (server_run (serverOptions process_env))) =
     options_env (exec_options (server_debug (serverOptions process_env)))"
  by (simp add: serverOptions_def)

subsection \<open>Activation end to end\<close>

text \<open>
  C7: when the environment has no override variable, activation (from any state, whatever
  the completion of the start) creates one file-system watcher, with the glob
  \<^verbatim>\<open>**/*.gen\<close>; the client it constructs and assigns to the module variable
  synchronises the events of that watcher, has the one scope rule with scheme
  \<^verbatim>\<open>file\<close> and language \<^verbatim>\<open>gen\<close>, and launches the default command.
\<close>

theorem activate_watch_and_scope:
  assumes "process_env ''SERVER_PATH'' = None"
  shows "(let w' = snd (activate process_env start_result w);
              c = clients w' ! length (clients w)
          in client w' = Handle (length (clients w)) \<and>
             watchers w' = watchers w @ [''**/*.gen''] \<and>
             watchers w' ! fileEvents (synchronize (lc_clientOptions c)) = ''**/*.gen'' \<and>
             documentSelector (lc_clientOptions c) = [\<lparr>scheme = ''file'', language = ''gen''\<rparr>] \<and>
             exec_command (server_run (lc_serverOptions c)) = ''generic-language-server'')"
  using assms
  by (simp add: activate_world Let_def clientOptions_def serverOptions_def run_def command_def)

theorem activate_watch_and_scope_witness:
  "(let w' = snd (activate Map.empty Pending initial); c = clients w' ! 0
    in client w' = Handle 0 \<and>
       watchers w' = [''**/*.gen''] \<and>
       watchers w' ! fileEvents (synchronize (lc_clientOptions c)) = ''**/*.gen'' \<and>
       documentSelector (lc_clientOptions c) = [\<lparr>scheme = ''file'', language = ''gen''\<rparr>] \<and>
       exec_command (server_run (lc_serverOptions c)) = ''generic-language-server'')"
proof -
  have h: "(Map.empty :: string \<rightharpoonup> string) ''SERVER_PATH'' = None" by simp
  show ?thesis
    using activate_watch_and_scope [OF h, of Pending initial] by (simp add: initial_def)
qed

subsection \<open>The command handler\<close>

text \<open>
  C8, as stated, fails for an argument whose formatting throws: the handler has no
  \<^verbatim>\<open>try\<close>, so the throw of \<^verbatim>\<open>console.log(uri)\<close> rejects the handler's
  promise, and the caller of the command sees the error. The registration message has been
  logged by then; the argument has not.
\<close>

theorem helloWorld_rejects_counterexample:
  "fst (helloWorld (JsObject 0 (Some (Failure ''inspect failed''))) initial) =
     Rejected (Failure ''inspect failed'') \<and>
   fst (helloWorld (JsObject 0 (Some (Failure ''inspect failed''))) initial) \<noteq>
     Resolved JsUndefined \<and>
   console (snd (helloWorld (JsObject 0 (Some (Failure ''inspect failed''))) initial)) =
     [JsString ''Running command registered as helloworld.helloWorld'']"
  by (simp add: helloWorld_world initial_def)

text \<open>
  C8, amended: for every argument value and every state, the handler changes nothing but
  the console and the record of its two log calls, and it first logs the registration
  message. When the console can format the argument, the handler then logs the argument
  and resolves with \<^verbatim>\<open>undefined\<close>: it returns no value and raises no fault. When
  formatting the argument throws an error, the argument is not logged and the handler's
  promise rejects with that error.
\<close>

theorem helloWorld_logs_then_settles:
  "(format_error uri = None \<longrightarrow>
      fst (helloWorld uri w) = Resolved JsUndefined \<and>
      (\<forall>e. fst (helloWorld uri w) \<noteq> Rejected e) \<and>
      console (snd (helloWorld uri w)) =
        console w @ [JsString ''Running command registered as helloworld.helloWorld'', uri]) \<and>
   (\<forall>e. format_error uri = Some e \<longrightarrow>
      fst (helloWorld uri w) = Rejected e \<and>
      console (snd (helloWorld uri w)) =
        console w @ [JsString ''Running command registered as helloworld.helloWorld'']) \<and>
   snd (helloWorld uri w) =
     w\<lparr>console := console (snd (helloWorld uri w)), effects := effects (snd (helloWorld uri w))\<rparr> \<and>
   effects (snd (helloWorld uri w)) = effects w @
     [ConsoleLog (JsString ''Running command registered as helloworld.helloWorld''),
      ConsoleLog uri]"
  by (simp add: helloWorld_world)

theorem helloWorld_logs_then_settles_witness:
  "fst (helloWorld (JsString ''file:///a.gen'') initial) = Resolved JsUndefined \<and>
   console (snd (helloWorld (JsString ''file:///a.gen'') initial)) =
     [JsString ''Running command registered as helloworld.helloWorld'',
      JsString ''file:///a.gen''] \<and>
   fst (helloWorld (JsObject 7 (Some (TypeError ''trap threw''))) initial) =
     Rejected (TypeError ''trap threw'') \<and>
   console (snd (helloWorld (JsObject 7 (Some (TypeError ''trap threw''))) initial)) =
     [JsString ''Running command registered as helloworld.helloWorld'']"
proof -
  have a: "format_error (JsString ''file:///a.gen'') = None" by simp
  have b: "format_error (JsObject 7 (Some (TypeError ''trap threw''))) =
             Some (TypeError ''trap threw'')" by simp
  from helloWorld_logs_then_settles [of "JsString ''file:///a.gen''" initial] a
  have ok:
    "fst (helloWorld (JsString ''file:///a.gen'') initial) = Resolved JsUndefined \<and>
     console (snd (helloWorld (JsString ''file:///a.gen'') initial)) =
       console initial @
         [JsString ''Running command registered as helloworld.helloWorld'',
          JsString ''file:///a.gen'']"
    by blast
  from helloWorld_logs_then_settles [of "JsObject 7 (Some (TypeError ''trap threw''))" initial] b
  have ko:
    "fst (helloWorld (JsObject 7 (Some (TypeError ''trap threw''))) initial) =
       Rejected (TypeError ''trap threw'') \<and>
     console (snd (helloWorld (JsObject 7 (Some (TypeError ''trap threw''))) initial)) =
       console initial @ [JsString ''Running command registered as helloworld.helloWorld'']"
    by blast
  have c: "console initial = []" by (simp add: initial_def)
  from ok ko show ?thesis unfolding c by simp
qed

subsection \<open>The guard of deactivate\<close>

text \<open>
  C9: the module variable is \<^verbatim>\<open>undefined\<close> when the module is loaded, and in every
  reachable state it is \<^verbatim>\<open>undefined\<close> or a constructed client, never
  \<^verbatim>\<open>null\<close>. So the guard \<^verbatim>\<open>client === null\<close> of \<^verbatim>\<open>deactivate\<close> is false
  where it is evaluated (after the log line), \<^verbatim>\<open>deactivate\<close> never returns the
  \<^verbatim>\<open>undefined\<close> of the guarded branch, and every call of it is the call of
  \<^verbatim>\<open>stop\<close> on whatever the variable holds.
\<close>

theorem deactivate_guard_never_holds:
  assumes "reachable w"
  shows "client initial = Undefined \<and>
         client w \<noteq> Null \<and>
         client (console_log (JsString ''Exiting Generic LSP extention'') w) \<noteq> Null \<and>
         (client w = Undefined \<or> (\<exists>h. client w = Handle h \<and> h < length (clients w))) \<and>
         fst (deactivate stop_result w) \<noteq> Return None \<and>
         deactivate stop_result w =
           client_stop stop_result (client w)
             (console_log (JsString ''Exiting Generic LSP extention'') w)"
proof -
  from reachable_client [OF assms] have n: "client w \<noteq> Null" by auto
  then show ?thesis
    using reachable_client [OF assms]
    by (cases "client w")
      (auto simp: deactivate_world client_stop_def console_log_def initial_def)
qed

theorem deactivate_guard_never_holds_witness:
  "reachable (snd (activate Map.empty (Resolved JsUndefined) initial)) \<and>
   client (snd (activate Map.empty (Resolved JsUndefined) initial)) \<noteq> Null \<and>
   fst (deactivate Pending (snd (activate Map.empty (Resolved JsUndefined) initial))) =
     Return (Some Pending) \<and>
   fst (deactivate Pending (snd (activate Map.empty (Resolved JsUndefined) initial))) \<noteq>
     Return None"
proof -
  have r: "reachable (snd (activate Map.empty (Resolved JsUndefined) initial))"
    by (rule reachable_activate [OF reachable_initial])
  have c: "client (snd (activate Map.empty (Resolved JsUndefined) initial)) = Handle 0"
    by (simp add: activate_world initial_def)
  from deactivate_guard_never_holds [OF r, of Pending] c r show ?thesis
    by (simp add: client_stop_def)
qed

subsection \<open>No rollback when the start fails\<close>

text \<open>
  C10: among the calls one activation makes, the push of the command registration onto the
  context's subscriptions and the creation of the trace channel come before the
  construction of the client and before the call of its \<^verbatim>\<open>start\<close>. When that start
  rejects, the activation rejects with the same error, and the registration, the
  subscription and the channel are still there: nothing is undone.
\<close>

theorem activate_no_rollback:
  "(let w' = snd (activate process_env start_result w);
        new = drop (length (effects w)) (effects w');
        h = length (clients w);
        d = CommandRegistration ''helloworld.helloWorld'';
        ch = ''Generic Language Server trace''
    in before (PushSubscription d) (NewLanguageClient h) new \<and>
       before (PushSubscription d) (ClientStart h) new \<and>
       before (CreateOutputChannel ch) (NewLanguageClient h) new \<and>
       before (CreateOutputChannel ch) (ClientStart h) new \<and>
       (\<forall>e. start_result = Rejected e \<longrightarrow>
          fst (activate process_env start_result w) = Rejected e \<and>
          registered w' = registered w @ [''helloworld.helloWorld''] \<and>
          subscriptions w' = subscriptions w @ [d] \<and>
          outputChannels w' = outputChannels w @ [ch] \<and>
          PushSubscription d \<in> set (effects w') \<and>
          CreateOutputChannel ch \<in> set (effects w')))"
  by (simp add: activate_world Let_def before_def await_last_def)

theorem activate_no_rollback_witness:
  "fst (activate Map.empty (Rejected (Failure ''spawn ENOENT'')) initial) =
     Rejected (Failure ''spawn ENOENT'') \<and>
   subscriptions (snd (activate Map.empty (Rejected (Failure ''spawn ENOENT'')) initial)) =
     [CommandRegistration ''helloworld.helloWorld''] \<and>
   outputChannels (snd (activate Map.empty (Rejected (Failure ''spawn ENOENT'')) initial)) =
     [''Generic Language Server trace'']"
  using activate_no_rollback [of Map.empty "Rejected (Failure ''spawn ENOENT'')" initial]
  by (simp add: Let_def initial_def)

end
